theory Spec2Isabelle
  imports Complex_Main "HOL-Library.AList"
begin

section \<open>Data model (models/recipe.py, models/experiment.py)\<close>

text \<open>
  Python values that the code handles as \<open>Any\<close>: the values of custom fields, of
  experiment overrides, and everything the dot-path accessor can reach. A \<open>float\<close> is
  modelled as a real number: the code only stores, copies and compares these values.
  A \<open>dict\<close> is an association list in insertion order. An instance of one of the
  dataclasses is \<open>PInst\<close> with its class and its attribute dictionary. \<open>POpaque\<close>
  stands for any other Python object (a bound method, a class, ...), named by a string.
\<close>

datatype pyclass =
  CRecipeTemplate | CTemperatureProfile | CGasFlow | CPrecursorSetup | CSubstrateInfo

datatype pyval =
    PNone
  | PFloat real
  | PStr string
  | PList "pyval list"
  | PDict "(string \<times> pyval) list"
  | PInst pyclass "(string \<times> pyval) list"
  | POpaque string

record TemperatureProfile =
  ramp_rate_1 :: real
  hold_temp_1 :: real
  hold_time_1 :: real
  ramp_rate_2 :: real
  peak_temp :: real
  peak_hold_time :: real
  cooling_method :: string
  controlled_cool_rate :: real

record GasFlow =
  ar_flow :: real
  h2_flow :: real
  total_flow :: real

record PrecursorSetup =
  moo3_amount :: real
  s_amount :: real
  moo3_position :: real
  s_position :: real
  moo3_boat_material :: string
  s_boat_material :: string

text \<open>The field \<open>size\<close> of \<open>SubstrateInfo\<close> is \<open>size_field\<close> here.\<close>

record SubstrateInfo =
  material :: string
  oxide_thickness :: real
  prep_method :: string
  orientation :: string
  size_field :: string

text \<open>The field \<open>id\<close> of \<open>RecipeTemplate\<close> is \<open>id_field\<close> here.\<close>

record RecipeTemplate =
  id_field :: string
  name :: string
  description :: string
  parent_template_id :: "string option"
  created_at :: string
  modified_at :: string
  temperature :: TemperatureProfile
  gas_flow :: GasFlow
  precursor :: PrecursorSetup
  substrate :: SubstrateInfo
  custom_fields :: "(string \<times> pyval) list"
  tags :: "string list"

text \<open>The dataclass defaults.\<close>

definition TemperatureProfile_default :: TemperatureProfile where
  "TemperatureProfile_default =
     \<lparr>ramp_rate_1 = 10, hold_temp_1 = 300, hold_time_1 = 10, ramp_rate_2 = 5,
      peak_temp = 750, peak_hold_time = 15, cooling_method = ''natural'',
      controlled_cool_rate = 10\<rparr>"

definition GasFlow_default :: GasFlow where
  "GasFlow_default = \<lparr>ar_flow = 100, h2_flow = 0, total_flow = 100\<rparr>"

definition PrecursorSetup_default :: PrecursorSetup where
  "PrecursorSetup_default =
     \<lparr>moo3_amount = 5, s_amount = 100, moo3_position = 0, s_position = - 15,
      moo3_boat_material = ''alumina'', s_boat_material = ''quartz''\<rparr>"

definition SubstrateInfo_default :: SubstrateInfo where
  "SubstrateInfo_default =
     \<lparr>material = ''SiO2/Si'', oxide_thickness = 300, prep_method = ''piranha'',
      orientation = ''(100)'', size_field = ''1cm x 1cm''\<rparr>"

text \<open>
  \<open>RecipeTemplate()\<close> draws its id from \<open>uuid4()\<close> and its two timestamps from two calls
  of \<open>datetime.now()\<close>; the model takes the three strings as arguments.
\<close>

definition RecipeTemplate_default :: "string \<Rightarrow> string \<Rightarrow> string \<Rightarrow> RecipeTemplate" where
  "RecipeTemplate_default uid created modified =
     \<lparr>id_field = uid, name = [], description = [], parent_template_id = None,
      created_at = created, modified_at = modified,
      temperature = TemperatureProfile_default, gas_flow = GasFlow_default,
      precursor = PrecursorSetup_default, substrate = SubstrateInfo_default,
      custom_fields = [], tags = []\<rparr>"

section \<open>Template store (core/template_manager.py)\<close>

text \<open>
  Every failure of the manager is a Python \<open>ValueError\<close>; the constructors tell the
  messages apart.
\<close>

datatype error =
    NotFound string
  | ParentNotFound string
  | CycleDetected
  | CircularInheritance
  | HasChildren string

datatype signal = TemplateCreated string | TemplateModified string | TemplateDeleted string

text \<open>
  The manager's state: the dictionary \<open>_templates\<close> (an association list in insertion
  order) and the signals emitted so far.
\<close>

record TemplateManager =
  templates :: "(string \<times> RecipeTemplate) list"
  emitted :: "signal list"

subsection \<open>Inheritance chain\<close>

text \<open>
  The loop of \<open>get_inheritance_chain\<close>. \<open>while current_id:\<close> stops on \<open>None\<close> and on
  the empty string.
\<close>

function chain_loop ::
  "(string \<times> RecipeTemplate) list \<Rightarrow> string option \<Rightarrow> string set \<Rightarrow> RecipeTemplate list
     \<Rightarrow> error + RecipeTemplate list" where
  "chain_loop ts None visited chain = Inr chain"
| "chain_loop ts (Some c) visited chain =
     (if c = [] then Inr chain
      else if c \<in> visited then Inl CircularInheritance
      else (case map_of ts c of
              None \<Rightarrow> Inr chain
            | Some t \<Rightarrow> chain_loop ts (parent_template_id t) (insert c visited) (chain @ [t])))"
  by pat_completeness auto
termination
proof (relation "measure (\<lambda>(ts, cur, visited, chain). card (fst ` set ts - visited))")
  show "wf (measure (\<lambda>(ts, cur, visited, chain). card (fst ` set ts - visited)))"
    by simp
next
  fix ts :: "(string \<times> RecipeTemplate) list" and c :: string and visited :: "string set"
    and chain :: "RecipeTemplate list" and t :: RecipeTemplate
  assume new: "c \<notin> visited" and stored: "map_of ts c = Some t"
  from stored have "c \<in> fst ` set ts"
    by (metis domI dom_map_of_conv_image_fst)
  with new have "fst ` set ts - insert c visited \<subset> fst ` set ts - visited"
    by blast
  then have "card (fst ` set ts - insert c visited) < card (fst ` set ts - visited)"
    by (intro psubset_card_mono) simp_all
  then show "((ts, parent_template_id t, insert c visited, chain @ [t]), (ts, Some c, visited, chain))
      \<in> measure (\<lambda>(ts, cur, visited, chain). card (fst ` set ts - visited))"
    by simp
qed

definition get_inheritance_chain ::
  "(string \<times> RecipeTemplate) list \<Rightarrow> string \<Rightarrow> error + RecipeTemplate list" where
  "get_inheritance_chain ts template_id = chain_loop ts (Some template_id) {} []"

subsection \<open>Cycle detection\<close>

function cycle_loop ::
  "(string \<times> RecipeTemplate) list \<Rightarrow> string option \<Rightarrow> string set \<Rightarrow> bool" where
  "cycle_loop ts None visited = False"
| "cycle_loop ts (Some c) visited =
     (if c = [] then False
      else if c \<in> visited then True
      else (case map_of ts c of
              None \<Rightarrow> False
            | Some t \<Rightarrow> cycle_loop ts (parent_template_id t) (insert c visited)))"
  by pat_completeness auto
termination
proof (relation "measure (\<lambda>(ts, cur, visited). card (fst ` set ts - visited))")
  show "wf (measure (\<lambda>(ts, cur, visited). card (fst ` set ts - visited)))"
    by simp
next
  fix ts :: "(string \<times> RecipeTemplate) list" and c :: string and visited :: "string set"
    and t :: RecipeTemplate
  assume fresh: "c \<notin> visited" and found: "map_of ts c = Some t"
  have "c \<in> fst ` set ts"
    using found by (metis domI dom_map_of_conv_image_fst)
  then have "fst ` set ts - insert c visited \<subset> fst ` set ts - visited"
    using fresh by blast
  then have "card (fst ` set ts - insert c visited) < card (fst ` set ts - visited)"
    by (intro psubset_card_mono) simp_all
  then show "((ts, parent_template_id t, insert c visited), (ts, Some c, visited))
      \<in> measure (\<lambda>(ts, cur, visited). card (fst ` set ts - visited))"
    by simp
qed

definition would_create_cycle ::
  "(string \<times> RecipeTemplate) list \<Rightarrow> string \<Rightarrow> string \<Rightarrow> bool" where
  "would_create_cycle ts template_id new_parent_id =
     cycle_loop ts (Some new_parent_id) {template_id}"

subsection \<open>CRUD operations\<close>

text \<open>
  Each mutating operation returns its outcome together with the manager's state
  afterwards, so that the state after a failure can be stated.
\<close>

definition store_created :: "RecipeTemplate \<Rightarrow> TemplateManager \<Rightarrow> (error + RecipeTemplate) \<times> TemplateManager" where
  "store_created template m =
     (Inr template,
      m\<lparr>templates := AList.update (id_field template) template (templates m),
        emitted := emitted m @ [TemplateCreated (id_field template)]\<rparr>)"

definition create_template ::
  "string \<Rightarrow> string \<Rightarrow> string \<Rightarrow> string \<Rightarrow> string option \<Rightarrow> string \<Rightarrow> TemplateManager
     \<Rightarrow> (error + RecipeTemplate) \<times> TemplateManager" where
  "create_template uid created modified nm parent_id descr m =
     (let template = (RecipeTemplate_default uid created modified)\<lparr>name := nm, description := descr\<rparr>
      in case parent_id of
           None \<Rightarrow> store_created template m
         | Some p \<Rightarrow>
             if p = [] then store_created template m
             else if map_of (templates m) p = None then (Inl (ParentNotFound p), m)
             else if would_create_cycle (templates m) (id_field template) p then (Inl CycleDetected, m)
             else store_created (template\<lparr>parent_template_id := Some p\<rparr>) m)"

definition get_template :: "TemplateManager \<Rightarrow> string \<Rightarrow> RecipeTemplate option" where
  "get_template m template_id = map_of (templates m) template_id"

text \<open>\<open>update_modified\<close> stamps \<open>datetime.now()\<close>, the argument \<open>now\<close>.\<close>

definition update_modified :: "string \<Rightarrow> RecipeTemplate \<Rightarrow> RecipeTemplate" where
  "update_modified now template = template\<lparr>modified_at := now\<rparr>"

definition update_template ::
  "string \<Rightarrow> RecipeTemplate \<Rightarrow> TemplateManager \<Rightarrow> (error + unit) \<times> TemplateManager" where
  "update_template now template m =
     (if map_of (templates m) (id_field template) = None
      then (Inl (NotFound (id_field template)), m)
      else (Inr (),
            m\<lparr>templates := AList.update (id_field template) (update_modified now template) (templates m),
              emitted := emitted m @ [TemplateModified (id_field template)]\<rparr>))"

definition delete_template ::
  "string \<Rightarrow> TemplateManager \<Rightarrow> (error + bool) \<times> TemplateManager" where
  "delete_template template_id m =
     (if map_of (templates m) template_id = None then (Inr False, m)
      else (case find (\<lambda>t. parent_template_id t = Some template_id) (map snd (templates m)) of
              Some t \<Rightarrow> (Inl (HasChildren (name t)), m)
            | None \<Rightarrow>
                (Inr True,
                 m\<lparr>templates := AList.delete template_id (templates m),
                   emitted := emitted m @ [TemplateDeleted template_id]\<rparr>)))"

definition list_templates :: "TemplateManager \<Rightarrow> RecipeTemplate list" where
  "list_templates m = map snd (templates m)"

definition get_root_templates :: "TemplateManager \<Rightarrow> RecipeTemplate list" where
  "get_root_templates m = filter (\<lambda>t. parent_template_id t = None) (map snd (templates m))"

definition get_children :: "TemplateManager \<Rightarrow> string \<Rightarrow> RecipeTemplate list" where
  "get_children m template_id =
     filter (\<lambda>t. parent_template_id t = Some template_id) (map snd (templates m))"

subsection \<open>Merge\<close>

text \<open>
  \<open>_merge_dataclass\<close> copies the base and then assigns every field of the overlay; one
  instance per section type.
\<close>

definition merge_dataclass_temperature :: "TemperatureProfile \<Rightarrow> TemperatureProfile \<Rightarrow> TemperatureProfile" where
  "merge_dataclass_temperature base overlay =
     base\<lparr>ramp_rate_1 := ramp_rate_1 overlay, hold_temp_1 := hold_temp_1 overlay,
          hold_time_1 := hold_time_1 overlay, ramp_rate_2 := ramp_rate_2 overlay,
          peak_temp := peak_temp overlay, peak_hold_time := peak_hold_time overlay,
          cooling_method := cooling_method overlay,
          controlled_cool_rate := controlled_cool_rate overlay\<rparr>"

definition merge_dataclass_gas_flow :: "GasFlow \<Rightarrow> GasFlow \<Rightarrow> GasFlow" where
  "merge_dataclass_gas_flow base overlay =
     base\<lparr>ar_flow := ar_flow overlay, h2_flow := h2_flow overlay,
          total_flow := total_flow overlay\<rparr>"

definition merge_dataclass_precursor :: "PrecursorSetup \<Rightarrow> PrecursorSetup \<Rightarrow> PrecursorSetup" where
  "merge_dataclass_precursor base overlay =
     base\<lparr>moo3_amount := moo3_amount overlay, s_amount := s_amount overlay,
          moo3_position := moo3_position overlay, s_position := s_position overlay,
          moo3_boat_material := moo3_boat_material overlay,
          s_boat_material := s_boat_material overlay\<rparr>"

definition merge_dataclass_substrate :: "SubstrateInfo \<Rightarrow> SubstrateInfo \<Rightarrow> SubstrateInfo" where
  "merge_dataclass_substrate base overlay =
     base\<lparr>material := material overlay, oxide_thickness := oxide_thickness overlay,
          prep_method := prep_method overlay, orientation := orientation overlay,
          size_field := size_field overlay\<rparr>"

text \<open>\<open>dict.update\<close>: the entries of the other dictionary are assigned in their order.\<close>

definition dict_update :: "(string \<times> 'v) list \<Rightarrow> (string \<times> 'v) list \<Rightarrow> (string \<times> 'v) list" where
  "dict_update d other = foldl (\<lambda>acc (k, v). AList.update k v acc) d other"

text \<open>
  \<open>list(set(a) | set(b))\<close>: every element of either list, once. Python does not specify
  the order in which a set is enumerated; the model lists the elements in the order of
  \<open>remdups\<close>, and the theorems below use only the set of the result and that its
  elements are distinct.
\<close>

definition tags_union :: "string list \<Rightarrow> string list \<Rightarrow> string list" where
  "tags_union a b = remdups (a @ b)"

definition merge_templates :: "RecipeTemplate \<Rightarrow> RecipeTemplate \<Rightarrow> RecipeTemplate" where
  "merge_templates base overlay =
     base\<lparr>temperature := merge_dataclass_temperature (temperature base) (temperature overlay),
          gas_flow := merge_dataclass_gas_flow (gas_flow base) (gas_flow overlay),
          precursor := merge_dataclass_precursor (precursor base) (precursor overlay),
          substrate := merge_dataclass_substrate (substrate base) (substrate overlay),
          custom_fields := dict_update (custom_fields base) (custom_fields overlay),
          tags := tags_union (tags base) (tags overlay),
          name := name overlay,
          description := (if description overlay \<noteq> [] then description overlay else description base),
          parent_template_id := parent_template_id overlay,
          created_at := created_at overlay,
          modified_at := modified_at overlay\<rparr>"

subsection \<open>Resolution\<close>

text \<open>
  \<open>resolve_template\<close>; \<open>created\<close> and \<open>modified\<close> are the timestamps that the constructor
  of the initial all-defaults template draws.
\<close>

definition resolve_template ::
  "string \<Rightarrow> string \<Rightarrow> (string \<times> RecipeTemplate) list \<Rightarrow> string \<Rightarrow> error + RecipeTemplate" where
  "resolve_template created modified ts template_id =
     (case map_of ts template_id of
        None \<Rightarrow> Inl (NotFound template_id)
      | Some stored \<Rightarrow>
          (case get_inheritance_chain ts template_id of
             Inl e \<Rightarrow> Inl e
           | Inr chain \<Rightarrow>
               Inr (foldl merge_templates
                      ((RecipeTemplate_default template_id created modified)\<lparr>name := name stored\<rparr>)
                      (rev chain))))"

section \<open>Field path accessor\<close>

text \<open>\<open>path.split('.')\<close>: never the empty list; the empty string gives one empty part.\<close>

fun split_dot :: "string \<Rightarrow> string list" where
  "split_dot [] = [[]]"
| "split_dot (c # cs) =
     (if c = CHR ''.'' then [] # split_dot cs
      else (case split_dot cs of
              [] \<Rightarrow> [[c]]
            | part # parts \<Rightarrow> (c # part) # parts))"

text \<open>
  How the accessor sees the typed objects: each dataclass instance with its attribute
  dictionary, in the order of the field declarations.
\<close>

definition TemperatureProfile_obj :: "TemperatureProfile \<Rightarrow> pyval" where
  "TemperatureProfile_obj s = PInst CTemperatureProfile
     [(''ramp_rate_1'', PFloat (ramp_rate_1 s)), (''hold_temp_1'', PFloat (hold_temp_1 s)),
      (''hold_time_1'', PFloat (hold_time_1 s)), (''ramp_rate_2'', PFloat (ramp_rate_2 s)),
      (''peak_temp'', PFloat (peak_temp s)), (''peak_hold_time'', PFloat (peak_hold_time s)),
      (''cooling_method'', PStr (cooling_method s)),
      (''controlled_cool_rate'', PFloat (controlled_cool_rate s))]"

definition GasFlow_obj :: "GasFlow \<Rightarrow> pyval" where
  "GasFlow_obj s = PInst CGasFlow
     [(''ar_flow'', PFloat (ar_flow s)), (''h2_flow'', PFloat (h2_flow s)),
      (''total_flow'', PFloat (total_flow s))]"

definition PrecursorSetup_obj :: "PrecursorSetup \<Rightarrow> pyval" where
  "PrecursorSetup_obj s = PInst CPrecursorSetup
     [(''moo3_amount'', PFloat (moo3_amount s)), (''s_amount'', PFloat (s_amount s)),
      (''moo3_position'', PFloat (moo3_position s)), (''s_position'', PFloat (s_position s)),
      (''moo3_boat_material'', PStr (moo3_boat_material s)),
      (''s_boat_material'', PStr (s_boat_material s))]"

definition SubstrateInfo_obj :: "SubstrateInfo \<Rightarrow> pyval" where
  "SubstrateInfo_obj s = PInst CSubstrateInfo
     [(''material'', PStr (material s)), (''oxide_thickness'', PFloat (oxide_thickness s)),
      (''prep_method'', PStr (prep_method s)), (''orientation'', PStr (orientation s)),
      (''size'', PStr (size_field s))]"

definition RecipeTemplate_obj :: "RecipeTemplate \<Rightarrow> pyval" where
  "RecipeTemplate_obj t = PInst CRecipeTemplate
     [(''id'', PStr (id_field t)), (''name'', PStr (name t)),
      (''description'', PStr (description t)),
      (''parent_template_id'', (case parent_template_id t of None \<Rightarrow> PNone | Some p \<Rightarrow> PStr p)),
      (''created_at'', PStr (created_at t)), (''modified_at'', PStr (modified_at t)),
      (''temperature'', TemperatureProfile_obj (temperature t)),
      (''gas_flow'', GasFlow_obj (gas_flow t)),
      (''precursor'', PrecursorSetup_obj (precursor t)),
      (''substrate'', SubstrateInfo_obj (substrate t)),
      (''custom_fields'', PDict (custom_fields t)),
      (''tags'', PList (map PStr (tags t)))]"

text \<open>
  \<open>hasattr\<close> and \<open>getattr\<close>. An instance attribute is found in the instance's dictionary.
  Every other attribute (a method, \<open>__class__\<close>, \<open>dict.keys\<close>, \<open>float.real\<close>, ...) comes
  from the object's type, which is Python's and not this repository's: the argument
  \<open>cattr\<close> gives, for a value and a name, the attribute found on the type, if any.
\<close>

definition getattr_py :: "(pyval \<Rightarrow> string \<Rightarrow> pyval option) \<Rightarrow> pyval \<Rightarrow> string \<Rightarrow> pyval option" where
  "getattr_py cattr current part =
     (case current of
        PInst c attrs \<Rightarrow> (case map_of attrs part of Some x \<Rightarrow> Some x | None \<Rightarrow> cattr current part)
      | _ \<Rightarrow> cattr current part)"

fun get_field_loop :: "(pyval \<Rightarrow> string \<Rightarrow> pyval option) \<Rightarrow> pyval \<Rightarrow> string list \<Rightarrow> pyval" where
  "get_field_loop cattr current [] = current"
| "get_field_loop cattr current (part # parts) =
     (if current = PNone then PNone
      else (case getattr_py cattr current part of
              Some x \<Rightarrow> get_field_loop cattr x parts
            | None \<Rightarrow>
                (case current of
                   PDict d \<Rightarrow>
                     get_field_loop cattr (case map_of d part of Some x \<Rightarrow> x | None \<Rightarrow> PNone) parts
                 | _ \<Rightarrow> PNone)))"

definition get_field_value :: "(pyval \<Rightarrow> string \<Rightarrow> pyval option) \<Rightarrow> pyval \<Rightarrow> string \<Rightarrow> pyval" where
  "get_field_value cattr obj path = get_field_loop cattr obj (split_dot path)"

text \<open>
  \<open>setattr\<close>. An instance of a dataclass stores the value in its attribute dictionary,
  except under the three names that the type handles itself, which are not modelled.
  \<open>None\<close>, a float, a string, a list and a dict have no attribute dictionary: assigning
  an attribute to one of them raises. The outcome of \<open>_set_field_value\<close> carries the
  object as it is afterwards; \<open>Escaped\<close> says that the walk went through an attribute of a
  type and left the modelled object.
\<close>

datatype pyerror = AttributeError | TypeError | IndexError

datatype set_result = Returned bool pyval | Raised pyerror pyval | Escaped

definition setattr_py :: "pyval \<Rightarrow> string \<Rightarrow> pyval \<Rightarrow> set_result" where
  "setattr_py current part v =
     (case current of
        PInst c attrs \<Rightarrow>
          if part \<in> set [''__class__'', ''__dict__'', ''__weakref__''] then Escaped
          else Returned True (PInst c (AList.update part v attrs))
      | POpaque s \<Rightarrow> Escaped
      | _ \<Rightarrow> Raised (if part = ''__class__'' then TypeError else AttributeError) current)"

text \<open>Puts the object reached under an instance attribute or a key back into its owner.\<close>

definition put_attr :: "pyclass \<Rightarrow> (string \<times> pyval) list \<Rightarrow> string \<Rightarrow> set_result \<Rightarrow> set_result" where
  "put_attr c attrs part r =
     (case r of
        Returned b child \<Rightarrow> Returned b (PInst c (AList.update part child attrs))
      | Raised e child \<Rightarrow> Raised e (PInst c (AList.update part child attrs))
      | Escaped \<Rightarrow> Escaped)"

definition put_key :: "(string \<times> pyval) list \<Rightarrow> string \<Rightarrow> set_result \<Rightarrow> set_result" where
  "put_key d part r =
     (case r of
        Returned b child \<Rightarrow> Returned b (PDict (AList.update part child d))
      | Raised e child \<Rightarrow> Raised e (PDict (AList.update part child d))
      | Escaped \<Rightarrow> Escaped)"

text \<open>
  The walk of \<open>_set_field_value\<close>: \<open>part\<close> is the current part and \<open>parts\<close> the ones after
  it; the last part is the one that is set.
\<close>

fun set_field_loop ::
  "(pyval \<Rightarrow> string \<Rightarrow> pyval option) \<Rightarrow> pyval \<Rightarrow> string \<Rightarrow> string list \<Rightarrow> pyval \<Rightarrow> set_result" where
  "set_field_loop cattr current part [] v =
     (if getattr_py cattr current part \<noteq> None then setattr_py current part v
      else (case current of
              PDict d \<Rightarrow> Returned True (PDict (AList.update part v d))
            | _ \<Rightarrow> Returned False current))"
| "set_field_loop cattr current part (nxt # rest) v =
     (case current of
        PInst c attrs \<Rightarrow>
          (case map_of attrs part of
             Some child \<Rightarrow> put_attr c attrs part (set_field_loop cattr child nxt rest v)
           | None \<Rightarrow> (case cattr current part of Some x \<Rightarrow> Escaped | None \<Rightarrow> Returned False current))
      | PDict d \<Rightarrow>
          (case cattr current part of
             Some x \<Rightarrow> Escaped
           | None \<Rightarrow>
               (case map_of d part of
                  Some child \<Rightarrow> put_key d part (set_field_loop cattr child nxt rest v)
                | None \<Rightarrow> put_key d part (set_field_loop cattr (PDict []) nxt rest v)))
      | _ \<Rightarrow> (case cattr current part of Some x \<Rightarrow> Escaped | None \<Rightarrow> Returned False current))"

definition set_field_value ::
  "(pyval \<Rightarrow> string \<Rightarrow> pyval option) \<Rightarrow> pyval \<Rightarrow> string \<Rightarrow> pyval \<Rightarrow> set_result" where
  "set_field_value cattr obj path v =
     (case split_dot path of
        [] \<Rightarrow> Raised IndexError obj
      | part # parts \<Rightarrow> set_field_loop cattr obj part parts v)"

text \<open>\<open>fields(C)\<close>: the field names of each section type, in declaration order.\<close>

definition fields_TemperatureProfile :: "string list" where
  "fields_TemperatureProfile =
     [''ramp_rate_1'', ''hold_temp_1'', ''hold_time_1'', ''ramp_rate_2'', ''peak_temp'',
      ''peak_hold_time'', ''cooling_method'', ''controlled_cool_rate'']"

definition fields_GasFlow :: "string list" where
  "fields_GasFlow = [''ar_flow'', ''h2_flow'', ''total_flow'']"

definition fields_PrecursorSetup :: "string list" where
  "fields_PrecursorSetup =
     [''moo3_amount'', ''s_amount'', ''moo3_position'', ''s_position'', ''moo3_boat_material'',
      ''s_boat_material'']"

definition fields_SubstrateInfo :: "string list" where
  "fields_SubstrateInfo =
     [''material'', ''oxide_thickness'', ''prep_method'', ''orientation'', ''size'']"

definition get_all_field_paths :: "string list" where
  "get_all_field_paths =
     map (\<lambda>f. ''temperature.'' @ f) fields_TemperatureProfile
     @ map (\<lambda>f. ''gas_flow.'' @ f) fields_GasFlow
     @ map (\<lambda>f. ''precursor.'' @ f) fields_PrecursorSetup
     @ map (\<lambda>f. ''substrate.'' @ f) fields_SubstrateInfo"

subsection \<open>Effective value of a template\<close>

text \<open>The loop of \<open>get_effective_value\<close> over the chain, nearest template first.\<close>

fun effective_loop ::
  "(pyval \<Rightarrow> string \<Rightarrow> pyval option) \<Rightarrow> RecipeTemplate list \<Rightarrow> string \<Rightarrow> (pyval \<times> string) option" where
  "effective_loop cattr [] field_path = None"
| "effective_loop cattr (template # rest) field_path =
     (let v = get_field_value cattr (RecipeTemplate_obj template) field_path
      in if v \<noteq> PNone then Some (v, id_field template)
         else effective_loop cattr rest field_path)"

text \<open>
  \<open>uid\<close>, \<open>created\<close> and \<open>modified\<close> are what the constructor of the all-defaults template
  draws when the chain gives no value.
\<close>

definition get_effective_value ::
  "(pyval \<Rightarrow> string \<Rightarrow> pyval option) \<Rightarrow> string \<Rightarrow> string \<Rightarrow> string
     \<Rightarrow> (string \<times> RecipeTemplate) list \<Rightarrow> string \<Rightarrow> string \<Rightarrow> error + (pyval \<times> string option)" where
  "get_effective_value cattr uid created modified ts template_id field_path =
     (case get_inheritance_chain ts template_id of
        Inl e \<Rightarrow> Inl e
      | Inr chain \<Rightarrow>
          (case effective_loop cattr chain field_path of
             Some (v, source) \<Rightarrow> Inr (v, Some source)
           | None \<Rightarrow>
               Inr (get_field_value cattr
                      (RecipeTemplate_obj (RecipeTemplate_default uid created modified)) field_path,
                    None)))"

section \<open>Experiment overrides (models/experiment.py)\<close>

text \<open>
  The fields \<open>id\<close>, \<open>name\<close>, \<open>created_at\<close>, \<open>notes\<close> and \<open>tags\<close> of \<open>Experiment\<close> carry the prefix
  \<open>exp\<close> here.
\<close>

record Experiment =
  exp_id :: string
  exp_name :: string
  template_id :: string
  exp_created_at :: string
  run_date :: "string option"
  completed_at :: "string option"
  status :: string
  overrides :: "(string \<times> pyval) list"
  override_reasons :: "(string \<times> string) list"
  outcome :: string
  exp_notes :: string
  observations :: string
  sample_ids :: "string list"
  characterization_ids :: "string list"
  exp_tags :: "string list"

definition set_override :: "Experiment \<Rightarrow> string \<Rightarrow> pyval \<Rightarrow> string \<Rightarrow> Experiment" where
  "set_override e field_path v reason =
     e\<lparr>overrides := AList.update field_path v (overrides e),
       override_reasons :=
         (if reason \<noteq> [] then AList.update field_path reason (override_reasons e)
          else override_reasons e)\<rparr>"

definition remove_override :: "Experiment \<Rightarrow> string \<Rightarrow> Experiment" where
  "remove_override e field_path =
     e\<lparr>overrides := AList.delete field_path (overrides e),
       override_reasons := AList.delete field_path (override_reasons e)\<rparr>"

definition is_overridden :: "Experiment \<Rightarrow> string \<Rightarrow> bool" where
  "is_overridden e field_path = (map_of (overrides e) field_path \<noteq> None)"

definition get_override :: "Experiment \<Rightarrow> string \<Rightarrow> pyval" where
  "get_override e field_path =
     (case map_of (overrides e) field_path of None \<Rightarrow> PNone | Some v \<Rightarrow> v)"

text \<open>
  The value an experiment shows for a path (ui/views/experiment_editor.py,
  \<open>load_experiment\<close>): the override when the path is in \<open>overrides\<close>, else the value
  of the resolved template at the path.
\<close>

definition effective_value ::
  "(pyval \<Rightarrow> string \<Rightarrow> pyval option) \<Rightarrow> Experiment \<Rightarrow> RecipeTemplate \<Rightarrow> string \<Rightarrow> pyval" where
  "effective_value cattr e resolved field_path =
     (case map_of (overrides e) field_path of
        Some v \<Rightarrow> v
      | None \<Rightarrow> get_field_value cattr (RecipeTemplate_obj resolved) field_path)"

section \<open>Notions used to state the properties\<close>

text \<open>
  The upward walk from an id, with no check that stops it on a repetition:
  \<open>walk_id ts cur n\<close> is the value of \<open>current_id\<close> at turn \<open>n\<close> of the loop of
  \<open>get_inheritance_chain\<close>, or \<open>None\<close> when the loop has ended before.
\<close>

fun walk_id :: "(string \<times> RecipeTemplate) list \<Rightarrow> string option \<Rightarrow> nat \<Rightarrow> string option" where
  "walk_id ts None n = None"
| "walk_id ts (Some c) 0 = (if c = [] then None else Some c)"
| "walk_id ts (Some c) (Suc n) =
     (if c = [] then None
      else (case map_of ts c of None \<Rightarrow> None | Some t \<Rightarrow> walk_id ts (parent_template_id t) n))"

text \<open>The walk from \<open>cur\<close> reaches an id of \<open>visited\<close>, or reaches some id twice.\<close>

definition revisits :: "(string \<times> RecipeTemplate) list \<Rightarrow> string option \<Rightarrow> string set \<Rightarrow> bool" where
  "revisits ts cur visited \<longleftrightarrow>
     (\<exists>j x. walk_id ts cur j = Some x \<and> (x \<in> visited \<or> (\<exists>i<j. walk_id ts cur i = Some x)))"

text \<open>
  The parent references at which the loop of \<open>get_inheritance_chain\<close> ends without an
  error: \<open>None\<close>, the empty string, and an id that is not in the store.
\<close>

definition walk_ends :: "(string \<times> RecipeTemplate) list \<Rightarrow> string option \<Rightarrow> bool" where
  "walk_ends ts p = (case p of None \<Rightarrow> True | Some c \<Rightarrow> c = [] \<or> map_of ts c = None)"

section \<open>Example states\<close>

definition manager0 :: TemplateManager where
  "manager0 = \<lparr>templates = [], emitted = []\<rparr>"

definition root_A :: RecipeTemplate where
  "root_A = (RecipeTemplate_default ''A'' ''d1'' ''d1'')\<lparr>name := ''A''\<rparr>"

definition child_B :: RecipeTemplate where
  "child_B =
     (RecipeTemplate_default ''B'' ''d2'' ''d2'')\<lparr>name := ''B'', parent_template_id := Some ''A''\<rparr>"

text \<open>Two calls of \<open>create_template\<close>: a root \<open>A\<close> and its child \<open>B\<close>.\<close>

definition manager_AB :: TemplateManager where
  "manager_AB =
     snd (create_template ''B'' ''d2'' ''d2'' ''B'' (Some ''A'') []
       (snd (create_template ''A'' ''d1'' ''d1'' ''A'' None [] manager0)))"

text \<open>Then \<open>update_template\<close> with \<open>A\<close> whose parent has been set to its child \<open>B\<close>.\<close>

definition manager_cyclic :: TemplateManager where
  "manager_cyclic =
     snd (update_template ''d3'' (root_A\<lparr>parent_template_id := Some ''B''\<rparr>) manager_AB)"

text \<open>A chain of three: \<open>A\<close> stores a peak temperature of 700, \<open>B\<close> and \<open>C\<close> the default.\<close>

definition tmpl_A :: RecipeTemplate where
  "tmpl_A = root_A\<lparr>temperature := TemperatureProfile_default\<lparr>peak_temp := 700\<rparr>\<rparr>"

definition tmpl_C :: RecipeTemplate where
  "tmpl_C =
     (RecipeTemplate_default ''C'' ''d4'' ''d4'')\<lparr>name := ''C'', parent_template_id := Some ''B''\<rparr>"

definition store_ABC :: "(string \<times> RecipeTemplate) list" where
  "store_ABC = [(''A'', tmpl_A), (''B'', child_B), (''C'', tmpl_C)]"

text \<open>A template created as a root and then updated with a parent that no template has.\<close>

definition orphan_X :: RecipeTemplate where
  "orphan_X =
     (RecipeTemplate_default ''X'' ''d1'' ''d1'')\<lparr>name := ''X'', parent_template_id := Some ''ghost''\<rparr>"

definition manager_X :: TemplateManager where
  "manager_X =
     snd (update_template ''d2'' orphan_X
       (snd (create_template ''X'' ''d1'' ''d1'' ''X'' None [] manager0)))"

text \<open>A root template that lists one tag twice.\<close>

definition tagged_T :: RecipeTemplate where
  "tagged_T = (RecipeTemplate_default ''T'' ''d1'' ''d1'')\<lparr>name := ''T'', tags := [''x'', ''x'']\<rparr>"

definition experiment_E :: Experiment where
  "experiment_E =
     \<lparr>exp_id = ''E'', exp_name = ''run 1'', template_id = ''A'', exp_created_at = ''d5'',
      run_date = None, completed_at = None, status = ''planned'', overrides = [],
      override_reasons = [], outcome = ''unknown'', exp_notes = [], observations = [],
      sample_ids = [], characterization_ids = [], exp_tags = []\<rparr>"

text \<open>
  An excerpt of the attributes of Python's types, for the examples: the public methods
  of \<open>dict\<close>. Every other lookup on a type finds nothing in this excerpt.
\<close>

definition dict_methods :: "string list" where
  "dict_methods =
     [''clear'', ''copy'', ''fromkeys'', ''get'', ''items'', ''keys'', ''pop'', ''popitem'',
      ''setdefault'', ''update'', ''values'']"

definition py_type_attr :: "pyval \<Rightarrow> string \<Rightarrow> pyval option" where
  "py_type_attr v part =
     (case v of
        PDict d \<Rightarrow> (if part \<in> set dict_methods then Some (POpaque (''dict.'' @ part)) else None)
      | _ \<Rightarrow> None)"

section \<open>Properties of the merge\<close>

lemma merge_dataclass_temperature_overlay: "merge_dataclass_temperature base overlay = overlay"
  by (simp add: merge_dataclass_temperature_def)

lemma merge_dataclass_gas_flow_overlay: "merge_dataclass_gas_flow base overlay = overlay"
  by (simp add: merge_dataclass_gas_flow_def)

lemma merge_dataclass_precursor_overlay: "merge_dataclass_precursor base overlay = overlay"
  by (simp add: merge_dataclass_precursor_def)

lemma merge_dataclass_substrate_overlay: "merge_dataclass_substrate base overlay = overlay"
  by (simp add: merge_dataclass_substrate_def)

lemma merge_templates_sections:
  "temperature (merge_templates base overlay) = temperature overlay"
  "gas_flow (merge_templates base overlay) = gas_flow overlay"
  "precursor (merge_templates base overlay) = precursor overlay"
  "substrate (merge_templates base overlay) = substrate overlay"
  by (simp_all add: merge_templates_def merge_dataclass_temperature_overlay
      merge_dataclass_gas_flow_overlay merge_dataclass_precursor_overlay
      merge_dataclass_substrate_overlay)

text \<open>
  Claim C4, as amended. The merged template takes its name, its parent reference and both
  timestamps from the overlay. Its description is the overlay's only when that is not
  empty: an empty description of the overlay leaves the description of the base.
\<close>

theorem merge_templates_metadata:
  "name (merge_templates base overlay) = name overlay \<and>
   parent_template_id (merge_templates base overlay) = parent_template_id overlay \<and>
   created_at (merge_templates base overlay) = created_at overlay \<and>
   modified_at (merge_templates base overlay) = modified_at overlay \<and>
   description (merge_templates base overlay) =
     (if description overlay = [] then description base else description overlay)"
  by (simp add: merge_templates_def)

text \<open>
  Claim C4 as it is written fails: merged onto a base described as \<open>baseline\<close>, the
  overlay \<open>B\<close> with an empty description gives a template described as \<open>baseline\<close>.
\<close>

theorem merge_keeps_base_description:
  "description child_B = [] \<and>
   description (merge_templates (root_A\<lparr>description := ''baseline''\<rparr>) child_B) = ''baseline'' \<and>
   description (merge_templates (root_A\<lparr>description := ''baseline''\<rparr>) child_B) \<noteq> description child_B"
  by (simp add: merge_templates_def child_B_def RecipeTemplate_default_def)

theorem merge_templates_metadata_witness:
  "name (merge_templates (root_A\<lparr>description := ''baseline''\<rparr>) child_B) = ''B'' \<and>
   parent_template_id (merge_templates (root_A\<lparr>description := ''baseline''\<rparr>) child_B) = Some ''A'' \<and>
   description (merge_templates (root_A\<lparr>description := ''baseline''\<rparr>) child_B) = ''baseline''"
  using merge_templates_metadata[of "root_A\<lparr>description := ''baseline''\<rparr>" child_B]
  by (simp add: child_B_def RecipeTemplate_default_def)

section \<open>Properties of the inheritance chain\<close>

lemma chain_loop_prefix:
  "chain_loop ts cur visited acc = Inr chain \<Longrightarrow> \<exists>suffix. chain = acc @ suffix"
  by (induction ts cur visited acc rule: chain_loop.induct)
     (auto split: if_splits option.splits)

lemma chain_loop_error:
  "chain_loop ts cur visited acc = Inl e \<Longrightarrow> e = CircularInheritance"
  by (induction ts cur visited acc rule: chain_loop.induct)
     (auto split: if_splits option.splits)

lemma chain_head_stored:
  assumes "get_inheritance_chain ts tid = Inr (t # rest)"
  shows "map_of ts tid = Some t" and "tid \<noteq> []"
  using assms chain_loop_prefix[of ts _ "{tid}" "[_]" "t # rest"]
  unfolding get_inheritance_chain_def
  by (auto split: if_splits option.splits)

lemma unknown_id_chain: "map_of ts tid = None \<Longrightarrow> get_inheritance_chain ts tid = Inr []"
  by (simp add: get_inheritance_chain_def)

lemma root_chain:
  assumes "map_of ts tid = Some T" "tid \<noteq> []" "parent_template_id T = None"
  shows "get_inheritance_chain ts tid = Inr [T]"
  using assms by (simp add: get_inheritance_chain_def)

subsection \<open>The walk and its repetitions\<close>

lemma revisits_None: "\<not> revisits ts None visited"
  by (simp add: revisits_def)

lemma walk_id_empty: "walk_id ts (Some []) n = None"
  by (cases n) simp_all

lemma revisits_empty: "\<not> revisits ts (Some []) visited"
  by (simp add: revisits_def walk_id_empty)

lemma revisits_visited: "c \<noteq> [] \<Longrightarrow> c \<in> visited \<Longrightarrow> revisits ts (Some c) visited"
  unfolding revisits_def by (rule exI[of _ 0]) simp

lemma revisits_missing:
  assumes "c \<noteq> []" "c \<notin> visited" "map_of ts c = None"
  shows "\<not> revisits ts (Some c) visited"
proof
  assume "revisits ts (Some c) visited"
  then obtain j x where w: "walk_id ts (Some c) j = Some x"
    and r: "x \<in> visited \<or> (\<exists>i<j. walk_id ts (Some c) i = Some x)"
    unfolding revisits_def by blast
  from w assms have "j = 0" by (cases j) simp_all
  with w r assms show False by simp
qed

lemma revisits_step:
  assumes "c \<noteq> []" "c \<notin> visited" "map_of ts c = Some t"
  shows "revisits ts (Some c) visited \<longleftrightarrow> revisits ts (parent_template_id t) (insert c visited)"
proof
  assume "revisits ts (Some c) visited"
  then obtain j x where w: "walk_id ts (Some c) j = Some x"
    and r: "x \<in> visited \<or> (\<exists>i<j. walk_id ts (Some c) i = Some x)"
    unfolding revisits_def by blast
  have "j \<noteq> 0"
    using w r assms by (cases j) auto
  then obtain j' where j: "j = Suc j'" by (cases j) auto
  with w assms have w': "walk_id ts (parent_template_id t) j' = Some x" by simp
  from r show "revisits ts (parent_template_id t) (insert c visited)"
  proof
    assume "x \<in> visited"
    with w' show ?thesis unfolding revisits_def by blast
  next
    assume "\<exists>i<j. walk_id ts (Some c) i = Some x"
    then obtain i where i: "i < j" "walk_id ts (Some c) i = Some x" by blast
    show ?thesis
    proof (cases i)
      case 0
      with i assms have "x = c" by simp
      with w' show ?thesis unfolding revisits_def by blast
    next
      case (Suc i')
      with i assms j have "i' < j'" "walk_id ts (parent_template_id t) i' = Some x" by simp_all
      with w' show ?thesis unfolding revisits_def by blast
    qed
  qed
next
  assume "revisits ts (parent_template_id t) (insert c visited)"
  then obtain j x where w: "walk_id ts (parent_template_id t) j = Some x"
    and r: "x \<in> insert c visited \<or> (\<exists>i<j. walk_id ts (parent_template_id t) i = Some x)"
    unfolding revisits_def by blast
  from w assms have w': "walk_id ts (Some c) (Suc j) = Some x" by simp
  consider "x = c" | "x \<in> visited" | i where "i < j" "walk_id ts (parent_template_id t) i = Some x"
    using r by blast
  then show "revisits ts (Some c) visited"
  proof cases
    case 1
    with assms have "walk_id ts (Some c) 0 = Some x" by simp
    with w' show ?thesis unfolding revisits_def by blast
  next
    case 2
    with w' show ?thesis unfolding revisits_def by blast
  next
    case 3
    with assms have "Suc i < Suc j" "walk_id ts (Some c) (Suc i) = Some x" by simp_all
    with w' show ?thesis unfolding revisits_def by blast
  qed
qed

lemma chain_loop_circular_iff:
  "chain_loop ts cur visited acc = Inl CircularInheritance \<longleftrightarrow> revisits ts cur visited"
proof (induction ts cur visited acc rule: chain_loop.induct)
  case (1 ts visited chain)
  show ?case by (simp add: revisits_None)
next
  case (2 ts c visited chain)
  show ?case
  proof (cases "c = []")
    case True
    then show ?thesis by (simp add: revisits_empty)
  next
    case ne: False
    show ?thesis
    proof (cases "c \<in> visited")
      case True
      with ne show ?thesis by (simp add: revisits_visited)
    next
      case nv: False
      show ?thesis
      proof (cases "map_of ts c")
        case None
        with ne nv show ?thesis by (simp add: revisits_missing)
      next
        case (Some t)
        with ne nv "2.IH"[of t] revisits_step[of c visited ts t] show ?thesis by simp
      qed
    qed
  qed
qed

lemma chain_loop_length:
  "chain_loop ts cur visited acc = Inr chain \<Longrightarrow>
     length chain \<le> length acc + card (fst ` set ts - visited)"
proof (induction ts cur visited acc rule: chain_loop.induct)
  case (1 ts visited chain)
  then show ?case by simp
next
  case (2 ts c visited acc)
  show ?case
  proof (cases "c \<noteq> [] \<and> c \<notin> visited \<and> map_of ts c \<noteq> None")
    case False
    with "2.prems" show ?thesis by (auto split: if_splits option.splits)
  next
    case True
    then obtain t where t: "map_of ts c = Some t" by blast
    with True "2.prems"
    have "chain_loop ts (parent_template_id t) (insert c visited) (acc @ [t]) = Inr chain"
      by simp
    with "2.IH"[of t] True t
    have le: "length chain \<le> length (acc @ [t]) + card (fst ` set ts - insert c visited)"
      by simp
    from t have "c \<in> fst ` set ts"
      by (metis domI dom_map_of_conv_image_fst)
    with True have "fst ` set ts - insert c visited \<subset> fst ` set ts - visited"
      by blast
    then have "card (fst ` set ts - insert c visited) < card (fst ` set ts - visited)"
      by (intro psubset_card_mono) simp_all
    with le show ?thesis by simp
  qed
qed

text \<open>
  Claim C3. \<open>get_inheritance_chain\<close> is a total function (the measure of its loop is the
  number of stored ids not yet visited), on every store, cyclic or not: it returns a
  chain, of at most as many templates as the store holds, or it fails with
  \<open>CircularInheritance\<close>; and it fails exactly when the upward walk from the id comes
  to an id that it has reached before.
\<close>

theorem get_inheritance_chain_terminates:
  "(get_inheritance_chain ts tid = Inl CircularInheritance \<or>
      (\<exists>chain. get_inheritance_chain ts tid = Inr chain \<and> length chain \<le> length ts)) \<and>
   (get_inheritance_chain ts tid = Inl CircularInheritance \<longleftrightarrow>
      (\<exists>i j. i < j \<and> walk_id ts (Some tid) j \<noteq> None \<and>
             walk_id ts (Some tid) i = walk_id ts (Some tid) j))"
proof
  show "get_inheritance_chain ts tid = Inl CircularInheritance \<or>
      (\<exists>chain. get_inheritance_chain ts tid = Inr chain \<and> length chain \<le> length ts)"
  proof (cases "get_inheritance_chain ts tid")
    case (Inl e)
    then show ?thesis
      using chain_loop_error[of ts "Some tid" "{}" "[]" e]
      by (simp add: get_inheritance_chain_def)
  next
    case (Inr chain)
    then have "length chain \<le> card (fst ` set ts)"
      using chain_loop_length[of ts "Some tid" "{}" "[]" chain]
      by (simp add: get_inheritance_chain_def)
    also have "\<dots> \<le> length ts"
      by (metis card_image_le card_length le_trans List.finite_set)
    finally show ?thesis using Inr by simp
  qed
  have "revisits ts (Some tid) {} \<longleftrightarrow>
      (\<exists>i j. i < j \<and> walk_id ts (Some tid) j \<noteq> None \<and>
             walk_id ts (Some tid) i = walk_id ts (Some tid) j)"
    unfolding revisits_def by (auto, (metis)+)
  then show "get_inheritance_chain ts tid = Inl CircularInheritance \<longleftrightarrow>
      (\<exists>i j. i < j \<and> walk_id ts (Some tid) j \<noteq> None \<and>
             walk_id ts (Some tid) i = walk_id ts (Some tid) j)"
    by (simp only: get_inheritance_chain_def chain_loop_circular_iff)
qed

section \<open>Evaluation of the example states\<close>

lemma manager_AB_eq:
  "manager_AB = \<lparr>templates = [(''A'', root_A), (''B'', child_B)],
                 emitted = [TemplateCreated ''A'', TemplateCreated ''B'']\<rparr>"
  by (simp add: manager_AB_def manager0_def create_template_def store_created_def Let_def
      would_create_cycle_def root_A_def child_B_def RecipeTemplate_default_def)

lemma manager_cyclic_eq:
  "manager_cyclic =
     \<lparr>templates = [(''A'', root_A\<lparr>parent_template_id := Some ''B'', modified_at := ''d3''\<rparr>),
                   (''B'', child_B)],
      emitted = [TemplateCreated ''A'', TemplateCreated ''B'', TemplateModified ''A'']\<rparr>"
  by (simp add: manager_cyclic_def manager_AB_eq update_template_def update_modified_def
      root_A_def RecipeTemplate_default_def)

lemma chain_cyclic:
  "get_inheritance_chain (templates manager_cyclic) ''A'' = Inl CircularInheritance"
  by (simp add: manager_cyclic_eq get_inheritance_chain_def child_B_def)

lemma manager_X_eq:
  "manager_X = \<lparr>templates = [(''X'', orphan_X\<lparr>modified_at := ''d2''\<rparr>)],
                emitted = [TemplateCreated ''X'', TemplateModified ''X'']\<rparr>"
  by (simp add: manager_X_def manager0_def create_template_def store_created_def Let_def
      update_template_def update_modified_def orphan_X_def RecipeTemplate_default_def)

lemma chain_ABC: "get_inheritance_chain store_ABC ''C'' = Inr [tmpl_C, child_B, tmpl_A]"
  by (simp add: get_inheritance_chain_def store_ABC_def tmpl_C_def child_B_def tmpl_A_def root_A_def
      RecipeTemplate_default_def)

text \<open>
  In the cyclic state the walk from \<open>A\<close> goes \<open>A\<close>, \<open>B\<close>, \<open>A\<close>: the chain fails, and the
  walk repeats an id.
\<close>

theorem circular_walk_detected:
  "get_inheritance_chain (templates manager_cyclic) ''A'' = Inl CircularInheritance \<and>
   (\<exists>i j. i < j \<and> walk_id (templates manager_cyclic) (Some ''A'') j \<noteq> None \<and>
          walk_id (templates manager_cyclic) (Some ''A'') i =
          walk_id (templates manager_cyclic) (Some ''A'') j)"
  using chain_cyclic get_inheritance_chain_terminates[of "templates manager_cyclic" "''A''"]
  by simp

section \<open>Properties of the store\<close>

lemma create_template_distinct:
  "distinct (map fst (templates m)) \<Longrightarrow>
     distinct (map fst (templates (snd (create_template uid created modified nm parent_id descr m))))"
  by (auto simp: create_template_def store_created_def Let_def AList.distinct_update
      split: option.splits)

lemma update_template_distinct:
  "distinct (map fst (templates m)) \<Longrightarrow>
     distinct (map fst (templates (snd (update_template now template m))))"
  by (simp add: update_template_def AList.distinct_update)

lemma delete_template_distinct:
  "distinct (map fst (templates m)) \<Longrightarrow>
     distinct (map fst (templates (snd (delete_template tid m))))"
  by (simp add: delete_template_def AList.distinct_delete split: option.splits)

text \<open>\<open>update_template\<close> looks at the id only: it stores any parent reference.\<close>

lemma update_template_accepts:
  "map_of (templates m) (id_field template) \<noteq> None \<Longrightarrow>
     fst (update_template now template m) = Inr () \<and>
     map_of (templates (snd (update_template now template m))) (id_field template) =
       Some (template\<lparr>modified_at := now\<rparr>)"
  by (simp add: update_template_def update_modified_def AList.update_conv')

text \<open>
  Claim C2 fails on the code. In the state of \<open>A\<close> and its child \<open>B\<close>, the check that
  \<open>create_template\<close> uses says that making \<open>B\<close> the parent of \<open>A\<close> would close a cycle;
  \<open>update_template\<close> does not run it, accepts the update, and in the state it leaves the
  chain of \<open>A\<close> comes back to \<open>A\<close>.
\<close>

theorem update_template_closes_cycle:
  "would_create_cycle (templates manager_AB) ''A'' ''B'' \<and>
   fst (update_template ''d3'' (root_A\<lparr>parent_template_id := Some ''B''\<rparr>) manager_AB) = Inr () \<and>
   get_inheritance_chain
     (templates (snd (update_template ''d3'' (root_A\<lparr>parent_template_id := Some ''B''\<rparr>) manager_AB)))
     ''A'' = Inl CircularInheritance"
proof (intro conjI)
  show "would_create_cycle (templates manager_AB) ''A'' ''B''"
    by (simp add: manager_AB_eq would_create_cycle_def child_B_def root_A_def)
  show "fst (update_template ''d3'' (root_A\<lparr>parent_template_id := Some ''B''\<rparr>) manager_AB) = Inr ()"
    by (simp add: manager_AB_eq update_template_def root_A_def RecipeTemplate_default_def)
  show "get_inheritance_chain
     (templates (snd (update_template ''d3'' (root_A\<lparr>parent_template_id := Some ''B''\<rparr>) manager_AB)))
     ''A'' = Inl CircularInheritance"
    unfolding manager_cyclic_def[symmetric] by (rule chain_cyclic)
qed

text \<open>
  Claim C6. With the dictionary's keys distinct: \<open>delete_template\<close> returns \<open>False\<close> for
  an id that is not stored and leaves the manager as it is; when a stored template has
  the id as its parent reference, it fails with \<open>HasChildren\<close>, naming such a template,
  and leaves the manager as it is; otherwise it returns \<open>True\<close> and the stored
  templates are the former ones without the id.
\<close>

theorem delete_template_cases:
  assumes "distinct (map fst (templates m))"
  shows "(map_of (templates m) tid = None \<longrightarrow> delete_template tid m = (Inr False, m)) \<and>
         (map_of (templates m) tid \<noteq> None \<and>
            (\<exists>k t. map_of (templates m) k = Some t \<and> parent_template_id t = Some tid) \<longrightarrow>
            (\<exists>k t. map_of (templates m) k = Some t \<and> parent_template_id t = Some tid \<and>
                   delete_template tid m = (Inl (HasChildren (name t)), m))) \<and>
         (map_of (templates m) tid \<noteq> None \<and>
            \<not> (\<exists>k t. map_of (templates m) k = Some t \<and> parent_template_id t = Some tid) \<longrightarrow>
            fst (delete_template tid m) = Inr True \<and>
            map_of (templates (snd (delete_template tid m))) = (map_of (templates m))(tid := None) \<and>
            templates (snd (delete_template tid m)) = AList.delete tid (templates m))"
proof (intro conjI impI)
  assume "map_of (templates m) tid = None"
  then show "delete_template tid m = (Inr False, m)"
    by (simp add: delete_template_def)
next
  assume a: "map_of (templates m) tid \<noteq> None \<and>
    (\<exists>k t. map_of (templates m) k = Some t \<and> parent_template_id t = Some tid)"
  then obtain k c where c: "map_of (templates m) k = Some c" "parent_template_id c = Some tid"
    by blast
  then have "c \<in> set (map snd (templates m))"
    by (metis map_of_SomeD set_zip_rightD zip_map_fst_snd)
  with c(2) obtain t
    where f: "find (\<lambda>t. parent_template_id t = Some tid) (map snd (templates m)) = Some t"
    by (cases "find (\<lambda>t. parent_template_id t = Some tid) (map snd (templates m))")
       (auto simp: find_None_iff)
  then have p: "parent_template_id t = Some tid" and "t \<in> set (map snd (templates m))"
    by (auto simp: find_Some_iff)
  then obtain k' where "(k', t) \<in> set (templates m)"
    by auto
  with assms have "map_of (templates m) k' = Some t"
    by simp
  with p f a show "\<exists>k t. map_of (templates m) k = Some t \<and> parent_template_id t = Some tid \<and>
      delete_template tid m = (Inl (HasChildren (name t)), m)"
    by (auto simp: delete_template_def)
next
  assume a: "map_of (templates m) tid \<noteq> None \<and>
    \<not> (\<exists>k t. map_of (templates m) k = Some t \<and> parent_template_id t = Some tid)"
  have "find (\<lambda>t. parent_template_id t = Some tid) (map snd (templates m)) = None"
  proof (rule ccontr)
    assume "find (\<lambda>t. parent_template_id t = Some tid) (map snd (templates m)) \<noteq> None"
    then obtain t where "t \<in> set (map snd (templates m))" "parent_template_id t = Some tid"
      by (auto simp: find_None_iff)
    then obtain k' where "(k', t) \<in> set (templates m)"
      by auto
    with assms have "map_of (templates m) k' = Some t"
      by simp
    with a \<open>parent_template_id t = Some tid\<close> show False
      by blast
  qed
  with a have d: "delete_template tid m =
      (Inr True, m\<lparr>templates := AList.delete tid (templates m),
                    emitted := emitted m @ [TemplateDeleted tid]\<rparr>)"
    by (auto simp: delete_template_def)
  show "fst (delete_template tid m) = Inr True"
    by (simp add: d)
  show "map_of (templates (snd (delete_template tid m))) = (map_of (templates m))(tid := None)"
    by (simp add: d AList.delete_conv')
  show "templates (snd (delete_template tid m)) = AList.delete tid (templates m)"
    by (simp add: d)
qed

text \<open>
  In the state of \<open>A\<close> and its child \<open>B\<close>: an unknown id gives \<open>False\<close>, deleting \<open>A\<close>
  fails and names a child, deleting \<open>B\<close> leaves \<open>A\<close> alone.
\<close>

theorem delete_template_examples:
  "distinct (map fst (templates manager_AB)) \<and>
   delete_template ''nobody'' manager_AB = (Inr False, manager_AB) \<and>
   (\<exists>k t. map_of (templates manager_AB) k = Some t \<and> parent_template_id t = Some ''A'' \<and>
          delete_template ''A'' manager_AB = (Inl (HasChildren (name t)), manager_AB)) \<and>
   fst (delete_template ''B'' manager_AB) = Inr True \<and>
   templates (snd (delete_template ''B'' manager_AB)) = [(''A'', root_A)]"
proof -
  have d: "distinct (map fst (templates manager_AB))"
    by (simp add: manager_AB_eq)
  have n: "map_of (templates manager_AB) ''nobody'' = None"
    by (simp add: manager_AB_eq)
  have a: "map_of (templates manager_AB) ''A'' \<noteq> None \<and>
      (\<exists>k t. map_of (templates manager_AB) k = Some t \<and> parent_template_id t = Some ''A'')"
  proof
    show "map_of (templates manager_AB) ''A'' \<noteq> None"
      by (simp add: manager_AB_eq)
    have "map_of (templates manager_AB) ''B'' = Some child_B \<and> parent_template_id child_B = Some ''A''"
      by (simp add: manager_AB_eq child_B_def)
    then show "\<exists>k t. map_of (templates manager_AB) k = Some t \<and> parent_template_id t = Some ''A''"
      by blast
  qed
  have b: "map_of (templates manager_AB) ''B'' \<noteq> None \<and>
      \<not> (\<exists>k t. map_of (templates manager_AB) k = Some t \<and> parent_template_id t = Some ''B'')"
    by (auto simp: manager_AB_eq child_B_def root_A_def RecipeTemplate_default_def split: if_splits)
  have l: "AList.delete ''B'' (templates manager_AB) = [(''A'', root_A)]"
    by (simp add: manager_AB_eq)
  show ?thesis
    using d delete_template_cases[OF d, of "''nobody''"] n
      delete_template_cases[OF d, of "''A''"] a
      delete_template_cases[OF d, of "''B''"] b l
    by simp
qed

section \<open>First and last element of a chain\<close>

lemma chain_loop_last:
  "chain_loop ts cur visited acc = Inr chain \<Longrightarrow>
   (acc \<noteq> [] \<Longrightarrow> parent_template_id (last acc) = cur) \<Longrightarrow>
   chain \<noteq> [] \<Longrightarrow> walk_ends ts (parent_template_id (last chain))"
proof (induction ts cur visited acc rule: chain_loop.induct)
  case (1 ts visited chain)
  then show ?case by (simp add: walk_ends_def)
next
  case (2 ts c visited acc)
  show ?case
  proof (cases "c \<noteq> [] \<and> c \<notin> visited \<and> map_of ts c \<noteq> None")
    case False
    with "2.prems" show ?thesis
      by (auto simp: walk_ends_def split: if_splits option.splits)
  next
    case True
    then obtain t where t: "map_of ts c = Some t" by blast
    with True "2.prems"(1)
    have "chain_loop ts (parent_template_id t) (insert c visited) (acc @ [t]) = Inr chain"
      by simp
    with "2.IH"[of t] True t "2.prems"(3) show ?thesis by simp
  qed
qed

text \<open>
  Claim C5, as amended. For a template \<open>T\<close> stored under a non-empty id,
  \<open>get_inheritance_chain\<close> either fails with \<open>CircularInheritance\<close> or returns a chain
  whose first element is \<open>T\<close> and whose last element has no parent reference, an empty
  one, or one that names no stored template.
\<close>

theorem chain_first_and_last:
  assumes "map_of ts tid = Some T" and "tid \<noteq> []"
  shows "get_inheritance_chain ts tid = Inl CircularInheritance \<or>
         (\<exists>rest. get_inheritance_chain ts tid = Inr (T # rest) \<and>
                 walk_ends ts (parent_template_id (last (T # rest))))"
proof (cases "get_inheritance_chain ts tid")
  case (Inl e)
  then show ?thesis
    using chain_loop_error[of ts "Some tid" "{}" "[]" e]
    by (simp add: get_inheritance_chain_def)
next
  case (Inr chain)
  with assms have loop: "chain_loop ts (parent_template_id T) {tid} [T] = Inr chain"
    by (simp add: get_inheritance_chain_def)
  then obtain rest where chain: "chain = T # rest"
    using chain_loop_prefix[of ts "parent_template_id T" "{tid}" "[T]" chain] by auto
  from loop have "walk_ends ts (parent_template_id (last chain))"
    using chain_loop_last[of ts "parent_template_id T" "{tid}" "[T]" chain] chain by simp
  with Inr chain show ?thesis by simp
qed

text \<open>
  Claim C5 as it is written fails. \<open>X\<close> is created as a root and then updated with the
  parent \<open>ghost\<close>, which no template has; its chain is \<open>X\<close> alone, and this last element
  has a parent reference.
\<close>

theorem chain_ends_at_missing_parent:
  "map_of (templates manager_X) ''X'' = Some (orphan_X\<lparr>modified_at := ''d2''\<rparr>) \<and>
   get_inheritance_chain (templates manager_X) ''X'' = Inr [orphan_X\<lparr>modified_at := ''d2''\<rparr>] \<and>
   parent_template_id (last [orphan_X\<lparr>modified_at := ''d2''\<rparr>]) = Some ''ghost''"
  by (simp add: manager_X_eq get_inheritance_chain_def orphan_X_def)

theorem chain_first_and_last_witness:
  "map_of store_ABC ''C'' = Some tmpl_C \<and> ''C'' \<noteq> [] \<and>
   get_inheritance_chain store_ABC ''C'' = Inr (tmpl_C # [child_B, tmpl_A]) \<and>
   walk_ends store_ABC (parent_template_id (last (tmpl_C # [child_B, tmpl_A])))"
proof -
  have h: "map_of store_ABC ''C'' = Some tmpl_C" "''C'' \<noteq> []"
    by (simp_all add: store_ABC_def)
  show ?thesis
    using h chain_first_and_last[OF h] by (simp add: chain_ABC)
qed

section \<open>Properties of the resolution\<close>

text \<open>
  Claim C1. When the inheritance chain of an id is \<open>t\<close> followed by its ancestors, \<open>t\<close>
  is the template stored under the id, \<open>resolve_template\<close> succeeds, and each of the
  four parameter sections of its result is the section that \<open>t\<close> stores (equal records,
  so equal field by field): the fold ends with \<open>t\<close> as the overlay and every field of an
  overlay replaces the field of the base.
\<close>

theorem resolve_template_sections:
  assumes "get_inheritance_chain ts tid = Inr (t # rest)"
  shows "map_of ts tid = Some t \<and>
         (\<exists>r. resolve_template created modified ts tid = Inr r \<and>
              temperature r = temperature t \<and> gas_flow r = gas_flow t \<and>
              precursor r = precursor t \<and> substrate r = substrate t)"
  using assms chain_head_stored[OF assms]
  by (simp add: resolve_template_def merge_templates_sections)

text \<open>
  The chain of three: \<open>A\<close> stores a peak temperature of 700, \<open>B\<close> and \<open>C\<close> keep the
  default; resolving \<open>C\<close> gives 750.
\<close>

theorem resolve_chain_of_three:
  "get_inheritance_chain store_ABC ''C'' = Inr [tmpl_C, child_B, tmpl_A] \<and>
   peak_temp (temperature tmpl_A) = 700 \<and>
   (case resolve_template ''d8'' ''d9'' store_ABC ''C'' of
      Inl e \<Rightarrow> False
    | Inr r \<Rightarrow> peak_temp (temperature r) = 750)"
proof -
  have c: "get_inheritance_chain store_ABC ''C'' = Inr (tmpl_C # [child_B, tmpl_A])"
    by (simp add: chain_ABC)
  have "peak_temp (temperature tmpl_C) = 750" "peak_temp (temperature tmpl_A) = 700"
    by (simp_all add: tmpl_C_def tmpl_A_def RecipeTemplate_default_def TemperatureProfile_default_def)
  then show ?thesis
    using c resolve_template_sections[OF c, of "''d8''" "''d9''"] by auto
qed

lemma update_absent_append: "k \<notin> fst ` set al \<Longrightarrow> AList.update k v al = al @ [(k, v)]"
  by (induction al) auto

lemma foldl_update_distinct:
  "distinct (map fst (acc @ xs)) \<Longrightarrow>
     foldl (\<lambda>acc (k, v). AList.update k v acc) acc xs = acc @ xs"
proof (induction xs arbitrary: acc)
  case Nil
  then show ?case by simp
next
  case (Cons x xs)
  obtain k v where x: "x = (k, v)" by (cases x)
  from Cons.prems x have "k \<notin> fst ` set acc" by auto
  then have "AList.update k v acc = acc @ [(k, v)]" by (rule update_absent_append)
  moreover from Cons.prems x have "distinct (map fst ((acc @ [(k, v)]) @ xs))" by simp
  ultimately show ?case using Cons.IH[of "acc @ [(k, v)]"] x by simp
qed

lemma dict_update_empty: "distinct (map fst xs) \<Longrightarrow> dict_update [] xs = xs"
  using foldl_update_distinct[of "[]" xs] by (simp add: dict_update_def)

text \<open>
  Claim C7, as amended. For a root template \<open>T\<close> stored under its own non-empty id (its
  custom fields a dictionary, so with distinct keys), \<open>resolve_template\<close> succeeds and
  its result is \<open>T\<close> in every field but the tag list: the four sections, id, name,
  description, parent reference, timestamps and custom fields are those of \<open>T\<close>, and
  the tag list holds the tags of \<open>T\<close>, each once.
\<close>

theorem resolve_root_template:
  assumes "map_of ts (id_field T) = Some T" and "id_field T \<noteq> []"
    and "parent_template_id T = None" and "distinct (map fst (custom_fields T))"
  shows "\<exists>r. resolve_template created modified ts (id_field T) = Inr r \<and>
             r\<lparr>tags := tags T\<rparr> = T \<and> set (tags r) = set (tags T) \<and> distinct (tags r)"
proof -
  let ?r = "merge_templates ((RecipeTemplate_default (id_field T) created modified)\<lparr>name := name T\<rparr>) T"
  have res: "resolve_template created modified ts (id_field T) = Inr ?r"
    using assms(1) root_chain[OF assms(1-3)] by (simp add: resolve_template_def)
  have "?r\<lparr>tags := tags T\<rparr> = T"
    using assms(3,4)
    by (simp add: merge_templates_def RecipeTemplate_default_def dict_update_empty
        merge_dataclass_temperature_overlay merge_dataclass_gas_flow_overlay
        merge_dataclass_precursor_overlay merge_dataclass_substrate_overlay)
  moreover have "set (tags ?r) = set (tags T)" "distinct (tags ?r)"
    by (simp_all add: merge_templates_def RecipeTemplate_default_def tags_union_def)
  ultimately show ?thesis using res by blast
qed

text \<open>
  Claim C7 as it is written fails. The root template \<open>T\<close> lists the tag \<open>x\<close> twice; the
  resolved template lists it once, and so is not \<open>T\<close>.
\<close>

theorem resolve_dedups_tags:
  "parent_template_id tagged_T = None \<and>
   resolve_template ''d8'' ''d9'' [(''T'', tagged_T)] ''T'' = Inr (tagged_T\<lparr>tags := [''x'']\<rparr>) \<and>
   resolve_template ''d8'' ''d9'' [(''T'', tagged_T)] ''T'' \<noteq> Inr tagged_T"
  by (simp add: resolve_template_def get_inheritance_chain_def tagged_T_def RecipeTemplate_default_def
      merge_templates_def tags_union_def dict_update_def merge_dataclass_temperature_overlay
      merge_dataclass_gas_flow_overlay merge_dataclass_precursor_overlay
      merge_dataclass_substrate_overlay)

theorem resolve_root_template_witness:
  "map_of store_ABC (id_field tmpl_A) = Some tmpl_A \<and> id_field tmpl_A \<noteq> [] \<and>
   parent_template_id tmpl_A = None \<and> distinct (map fst (custom_fields tmpl_A)) \<and>
   (\<exists>r. resolve_template ''d8'' ''d9'' store_ABC (id_field tmpl_A) = Inr r \<and>
        r\<lparr>tags := tags tmpl_A\<rparr> = tmpl_A \<and> set (tags r) = set (tags tmpl_A) \<and> distinct (tags r))"
proof -
  have h: "map_of store_ABC (id_field tmpl_A) = Some tmpl_A" "id_field tmpl_A \<noteq> []"
    "parent_template_id tmpl_A = None" "distinct (map fst (custom_fields tmpl_A))"
    by (simp_all add: store_ABC_def tmpl_A_def root_A_def RecipeTemplate_default_def)
  show ?thesis
    using h resolve_root_template[OF h, of "''d8''" "''d9''"] by simp
qed

section \<open>Properties of the effective value\<close>

text \<open>What the accessor reads at each known path of a template, whatever the types offer.\<close>

lemma known_path_values:
  "map (get_field_value cattr (RecipeTemplate_obj t)) get_all_field_paths =
     [PFloat (ramp_rate_1 (temperature t)), PFloat (hold_temp_1 (temperature t)),
      PFloat (hold_time_1 (temperature t)), PFloat (ramp_rate_2 (temperature t)),
      PFloat (peak_temp (temperature t)), PFloat (peak_hold_time (temperature t)),
      PStr (cooling_method (temperature t)), PFloat (controlled_cool_rate (temperature t)),
      PFloat (ar_flow (gas_flow t)), PFloat (h2_flow (gas_flow t)), PFloat (total_flow (gas_flow t)),
      PFloat (moo3_amount (precursor t)), PFloat (s_amount (precursor t)),
      PFloat (moo3_position (precursor t)), PFloat (s_position (precursor t)),
      PStr (moo3_boat_material (precursor t)), PStr (s_boat_material (precursor t)),
      PStr (material (substrate t)), PFloat (oxide_thickness (substrate t)),
      PStr (prep_method (substrate t)), PStr (orientation (substrate t)),
      PStr (size_field (substrate t))]"
  by (simp add: get_all_field_paths_def fields_TemperatureProfile_def fields_GasFlow_def
      fields_PrecursorSetup_def fields_SubstrateInfo_def get_field_value_def
      RecipeTemplate_obj_def TemperatureProfile_obj_def GasFlow_obj_def PrecursorSetup_obj_def
      SubstrateInfo_obj_def getattr_py_def)

lemma known_path_not_None:
  assumes "path \<in> set get_all_field_paths"
  shows "get_field_value cattr (RecipeTemplate_obj t) path \<noteq> PNone"
proof -
  have "PNone \<notin> set (map (get_field_value cattr (RecipeTemplate_obj t)) get_all_field_paths)"
    unfolding known_path_values by simp
  with assms show ?thesis by force
qed

lemma effective_loop_None:
  "(\<forall>t\<in>set chain. get_field_value cattr (RecipeTemplate_obj t) path = PNone) \<Longrightarrow>
     effective_loop cattr chain path = None"
  by (induction chain) simp_all

lemma peak_temp_known: "''temperature.peak_temp'' \<in> set get_all_field_paths"
  by (simp add: get_all_field_paths_def fields_TemperatureProfile_def)

text \<open>
  Claim C8, as amended. For a template stored under a non-empty id and a known path, the
  value that the accessor reads on the template is not \<open>None\<close>, and
  \<open>get_effective_value\<close> returns it with the template's own id as the source, unless
  the chain of the id fails with \<open>CircularInheritance\<close>: then \<open>get_effective_value\<close>
  fails with it too. When the chain is returned and no template in it yields a value at
  a path, the result is the value of that path on an all-defaults template, with no
  source; the chain of an unknown id is empty.
\<close>

theorem get_effective_value_cases:
  "(map_of ts tid = Some t \<and> tid \<noteq> [] \<and> path \<in> set get_all_field_paths \<longrightarrow>
      get_field_value cattr (RecipeTemplate_obj t) path \<noteq> PNone \<and>
      (case get_inheritance_chain ts tid of
         Inl e \<Rightarrow> e = CircularInheritance \<and>
                  get_effective_value cattr uid created modified ts tid path = Inl CircularInheritance
       | Inr chain \<Rightarrow>
           get_effective_value cattr uid created modified ts tid path =
             Inr (get_field_value cattr (RecipeTemplate_obj t) path, Some (id_field t)))) \<and>
   (get_inheritance_chain ts tid = Inr chain \<and>
      (\<forall>c\<in>set chain. get_field_value cattr (RecipeTemplate_obj c) q = PNone) \<longrightarrow>
      get_effective_value cattr uid created modified ts tid q =
        Inr (get_field_value cattr (RecipeTemplate_obj (RecipeTemplate_default uid created modified)) q,
             None)) \<and>
   (map_of ts tid = None \<longrightarrow> get_inheritance_chain ts tid = Inr [])"
proof (intro conjI impI)
  assume a: "map_of ts tid = Some t \<and> tid \<noteq> [] \<and> path \<in> set get_all_field_paths"
  then show nn: "get_field_value cattr (RecipeTemplate_obj t) path \<noteq> PNone"
    by (simp add: known_path_not_None)
  show "case get_inheritance_chain ts tid of
         Inl e \<Rightarrow> e = CircularInheritance \<and>
                  get_effective_value cattr uid created modified ts tid path = Inl CircularInheritance
       | Inr chain \<Rightarrow>
           get_effective_value cattr uid created modified ts tid path =
             Inr (get_field_value cattr (RecipeTemplate_obj t) path, Some (id_field t))"
  proof (cases "get_inheritance_chain ts tid")
    case (Inl e)
    then have "e = CircularInheritance"
      using chain_loop_error[of ts "Some tid" "{}" "[]" e]
      by (simp add: get_inheritance_chain_def)
    with Inl show ?thesis by (simp add: get_effective_value_def)
  next
    case (Inr chain)
    with a have "chain_loop ts (parent_template_id t) {tid} [t] = Inr chain"
      by (simp add: get_inheritance_chain_def)
    then obtain rest where "chain = t # rest"
      using chain_loop_prefix[of ts "parent_template_id t" "{tid}" "[t]" chain] by auto
    with Inr nn show ?thesis by (simp add: get_effective_value_def)
  qed
next
  assume "get_inheritance_chain ts tid = Inr chain \<and>
      (\<forall>c\<in>set chain. get_field_value cattr (RecipeTemplate_obj c) q = PNone)"
  then show "get_effective_value cattr uid created modified ts tid q =
        Inr (get_field_value cattr (RecipeTemplate_obj (RecipeTemplate_default uid created modified)) q,
             None)"
    by (simp add: get_effective_value_def effective_loop_None)
next
  assume "map_of ts tid = None"
  then show "get_inheritance_chain ts tid = Inr []"
    by (rule unknown_id_chain)
qed

text \<open>
  Claim C8 as it is written fails. In the cyclic state, \<open>A\<close> is stored and the path is a
  known one, and \<open>get_effective_value\<close> fails: the whole chain is built before the first
  template is looked at.
\<close>

theorem effective_value_fails_in_cycle:
  "map_of (templates manager_cyclic) ''A'' \<noteq> None \<and>
   ''temperature.peak_temp'' \<in> set get_all_field_paths \<and>
   get_effective_value py_type_attr ''u'' ''d8'' ''d9'' (templates manager_cyclic) ''A''
     ''temperature.peak_temp'' = Inl CircularInheritance"
proof (intro conjI)
  show "map_of (templates manager_cyclic) ''A'' \<noteq> None"
    by (simp add: manager_cyclic_eq)
  show "''temperature.peak_temp'' \<in> set get_all_field_paths"
    by (rule peak_temp_known)
  show "get_effective_value py_type_attr ''u'' ''d8'' ''d9'' (templates manager_cyclic) ''A''
     ''temperature.peak_temp'' = Inl CircularInheritance"
    by (simp add: get_effective_value_def chain_cyclic)
qed

text \<open>
  In the chain of three, the peak temperature of \<open>C\<close> comes from \<open>C\<close> itself; for an
  unknown id it is the default, with no source.
\<close>

theorem get_effective_value_examples:
  "get_effective_value py_type_attr ''u'' ''d8'' ''d9'' store_ABC ''C'' ''temperature.peak_temp'' =
     Inr (PFloat 750, Some ''C'') \<and>
   get_effective_value py_type_attr ''u'' ''d8'' ''d9'' store_ABC ''nobody'' ''temperature.peak_temp'' =
     Inr (PFloat 750, None)"
proof -
  have s: "map_of store_ABC ''C'' = Some tmpl_C \<and> ''C'' \<noteq> [] \<and>
      ''temperature.peak_temp'' \<in> set get_all_field_paths"
    using peak_temp_known by (simp add: store_ABC_def)
  have n: "map_of store_ABC ''nobody'' = None"
    by (simp add: store_ABC_def)
  have v: "get_field_value py_type_attr (RecipeTemplate_obj tmpl_C) ''temperature.peak_temp'' = PFloat 750"
    "get_field_value py_type_attr (RecipeTemplate_obj (RecipeTemplate_default ''u'' ''d8'' ''d9''))
       ''temperature.peak_temp'' = PFloat 750"
    "id_field tmpl_C = ''C''"
    by (simp_all add: get_field_value_def RecipeTemplate_obj_def TemperatureProfile_obj_def
        getattr_py_def tmpl_C_def RecipeTemplate_default_def TemperatureProfile_default_def)
  have c: "get_inheritance_chain store_ABC ''nobody'' = Inr [] \<and>
      (\<forall>c\<in>set []. get_field_value py_type_attr (RecipeTemplate_obj c) ''temperature.peak_temp'' = PNone)"
    using n by (simp add: unknown_id_chain)
  show ?thesis
    using get_effective_value_cases[of store_ABC "''C''" tmpl_C "''temperature.peak_temp''"
        py_type_attr "''u''" "''d8''" "''d9''" "[]" "''temperature.peak_temp''"]
      get_effective_value_cases[of store_ABC "''nobody''" tmpl_C "''temperature.peak_temp''"
        py_type_attr "''u''" "''d8''" "''d9''" "[]" "''temperature.peak_temp''"]
      s n v c chain_ABC
    by simp
qed

section \<open>Properties of the overrides\<close>

lemma delete_absent: "map_of xs k = None \<Longrightarrow> AList.delete k xs = xs"
  by (simp add: map_of_eq_None_iff)

lemma delete_update_absent: "map_of xs k = None \<Longrightarrow> AList.delete k (AList.update k v xs) = xs"
  by (simp add: AList.delete_update_same delete_absent)

text \<open>
  Claim C9. For a path that the experiment does not override: after \<open>set_override\<close> and
  then \<open>remove_override\<close> on the path, the effective value at the path is the value of
  the resolved template there, which it was before; the path has no entry in the
  overrides and none in the reasons; and the overrides are the list they were.
  \<open>remove_override\<close> on such a path leaves the overrides as they are, and when the path
  has no reason either, it leaves the whole experiment as it is, as do the two calls
  together.
\<close>

theorem set_then_remove_override:
  assumes "map_of (overrides e) p = None"
  shows "effective_value cattr (remove_override (set_override e p v reason) p) resolved p =
           get_field_value cattr (RecipeTemplate_obj resolved) p \<and>
         effective_value cattr (remove_override (set_override e p v reason) p) resolved p =
           effective_value cattr e resolved p \<and>
         map_of (overrides (remove_override (set_override e p v reason) p)) p = None \<and>
         map_of (override_reasons (remove_override (set_override e p v reason) p)) p = None \<and>
         overrides (remove_override (set_override e p v reason) p) = overrides e \<and>
         overrides (remove_override e p) = overrides e \<and>
         (map_of (override_reasons e) p = None \<longrightarrow>
            remove_override (set_override e p v reason) p = e \<and> remove_override e p = e)"
  using assms
  by (simp add: effective_value_def remove_override_def set_override_def
      AList.delete_conv' delete_absent delete_update_absent)

text \<open>
  An experiment on \<open>A\<close> with no override: the override of the peak temperature shows
  800, and removing it brings back the template's value and the experiment as it was.
\<close>

theorem set_then_remove_override_example:
  "map_of (overrides experiment_E) ''temperature.peak_temp'' = None \<and>
   effective_value py_type_attr
     (set_override experiment_E ''temperature.peak_temp'' (PFloat 800) ''hotter'') tmpl_A
     ''temperature.peak_temp'' = PFloat 800 \<and>
   effective_value py_type_attr
     (remove_override (set_override experiment_E ''temperature.peak_temp'' (PFloat 800) ''hotter'')
        ''temperature.peak_temp'') tmpl_A ''temperature.peak_temp'' =
     get_field_value py_type_attr (RecipeTemplate_obj tmpl_A) ''temperature.peak_temp'' \<and>
   remove_override (set_override experiment_E ''temperature.peak_temp'' (PFloat 800) ''hotter'')
     ''temperature.peak_temp'' = experiment_E"
proof -
  have h: "map_of (overrides experiment_E) ''temperature.peak_temp'' = None"
    by (simp add: experiment_E_def)
  have r: "map_of (override_reasons experiment_E) ''temperature.peak_temp'' = None"
    by (simp add: experiment_E_def)
  have s: "effective_value py_type_attr
     (set_override experiment_E ''temperature.peak_temp'' (PFloat 800) ''hotter'') tmpl_A
     ''temperature.peak_temp'' = PFloat 800"
    by (simp add: effective_value_def set_override_def experiment_E_def)
  show ?thesis
    using h r s set_then_remove_override[OF h, of py_type_attr "PFloat 800" "''hotter''" tmpl_A]
    by blast
qed

section \<open>Properties of the accessor\<close>

text \<open>
  Claim C10 fails on the code for \<open>_set_field_value\<close>. The custom fields of a template
  are a dict, and a dict has the attribute \<open>keys\<close>; on the path \<open>custom_fields.keys\<close>
  the test \<open>hasattr\<close> succeeds, \<open>setattr\<close> is called on the dict and raises
  \<open>AttributeError\<close>: no boolean is returned. The template is left as it was.
\<close>

theorem set_field_value_raises:
  assumes "cattr (PDict (custom_fields t)) ''keys'' \<noteq> None"
  shows "set_field_value cattr (RecipeTemplate_obj t) ''custom_fields.keys'' v =
           Raised AttributeError (RecipeTemplate_obj t)"
  using assms
  by (simp add: set_field_value_def RecipeTemplate_obj_def getattr_py_def setattr_py_def
      put_attr_def)

theorem set_field_value_raises_example:
  "py_type_attr (PDict (custom_fields tmpl_A)) ''keys'' \<noteq> None \<and>
   set_field_value py_type_attr (RecipeTemplate_obj tmpl_A) ''custom_fields.keys'' (PFloat 1) =
     Raised AttributeError (RecipeTemplate_obj tmpl_A)"
proof -
  have h: "py_type_attr (PDict (custom_fields tmpl_A)) ''keys'' \<noteq> None"
    by (simp add: py_type_attr_def dict_methods_def)
  show ?thesis
    using h set_field_value_raises[of py_type_attr tmpl_A "PFloat 1"] by simp
qed

end
